theory Spec2Isabelle
  imports Complex_Main "HOL-Library.Char_ord" "HOL-Library.List_Lexorder" "HOL-Library.Sublist"
begin

section \<open>Cells and text\<close>

text \<open>
  A cell of a data frame that holds text is a \<open>string option\<close>: \<open>None\<close> is the missing
  value (NaN) that \<open>read_csv\<close> puts for an empty field, \<open>Some s\<close> is a cell whose
  \<open>str()\<close> is \<open>s\<close>. A character of the model is one code point of the Python string,
  below 256. Numbers are real numbers (float64 rounding, infinities and NaN arithmetic
  are not modelled); a missing number is \<open>None\<close>.
\<close>

definition astype_str :: "string option \<Rightarrow> string" where
  \<comment> \<open>\<open>Series.astype(str)\<close>: a missing value becomes the text \<open>nan\<close>.\<close>
  "astype_str c = (case c of None \<Rightarrow> ''nan'' | Some s \<Rightarrow> s)"

definition isspace :: "char \<Rightarrow> bool" where
  \<comment> \<open>\<open>str.isspace\<close> on the code points below 256.\<close>
  "isspace c = (c \<in> set [CHR 0x09, CHR 0x0A, CHR 0x0B, CHR 0x0C, CHR 0x0D,
                           CHR 0x1C, CHR 0x1D, CHR 0x1E, CHR 0x1F, CHR 0x20,
                           CHR 0x85, CHR 0xA0])"

definition strip :: "string \<Rightarrow> string" where
  \<comment> \<open>\<open>str.strip()\<close>: whitespace removed at both ends.\<close>
  "strip s = rev (dropWhile isspace (rev (dropWhile isspace s)))"

definition upper_char :: "char \<Rightarrow> char" where
  \<comment> \<open>\<open>str.upper\<close> on one character: a lower-case ASCII letter (0x61 to 0x7A) loses the
      bit 0x20, which is 32 less; exact on ASCII, and a code point from 128 on is left
      as it is.\<close>
  "upper_char c =
     (if CHR ''a'' \<le> c \<and> c \<le> CHR ''z''
      then (case c of Char b0 b1 b2 b3 b4 b5 b6 b7 \<Rightarrow> Char b0 b1 b2 b3 b4 False b6 b7)
      else c)"

definition upper :: "string \<Rightarrow> string" where
  "upper s = map upper_char s"

definition replace_bar :: "string \<Rightarrow> string" where
  \<comment> \<open>\<open>.str.replace("|", ",", regex=False)\<close>\<close>
  "replace_bar s = map (\<lambda>c. if c = CHR ''|'' then CHR '','' else c) s"

fun split :: "char \<Rightarrow> string \<Rightarrow> string list" where
  \<comment> \<open>\<open>str.split(sep)\<close> for a separator of one character: empty pieces are kept and the
      result is never the empty list.\<close>
  "split sep [] = [[]]"
| "split sep (c # cs) =
     (let ts = split sep cs in if c = sep then [] # ts else (c # hd ts) # tl ts)"

fun str_contains :: "string \<Rightarrow> string \<Rightarrow> bool" where
  \<comment> \<open>\<open>str_contains pat s\<close>: \<open>.str.contains(pat)\<close> for a pattern without regex operators,
      that is \<open>pat in s\<close>.\<close>
  "str_contains pat [] = (pat = [])"
| "str_contains pat (c # cs) = (prefix pat (c # cs) \<or> str_contains pat cs)"

section \<open>The sales table\<close>

type_synonym date = int
type_synonym datetime = "date \<times> nat"
  \<comment> \<open>a day number and the time within the day\<close>

text \<open>
  A row of the sales table as \<open>read_csv\<close> returns it. The fields stand for the columns
  the code reads: the order identifier column (\<open>order_id_col\<close>), \<open>Seller SKUs\<close>,
  \<open>Products\<close>, the status column (\<open>status_col\<close>), \<open>Channel\<close>,
  \<open>Uniware Created At\<close> and \<open>Order Price\<close>.
\<close>

record raw_sale =
  raw_order_id :: "string option"
  raw_seller_skus :: "string option"
  raw_products :: "string option"
  raw_status :: "string option"
  raw_channel :: "string option"
  raw_created_at :: "string option"
  raw_order_price :: "string option"

text \<open>
  A row of the table \<open>process_data\<close> returns: one row for each SKU token. The type
  parameter is the type of the \<open>Order Price\<close> column: text as read at first, a number
  once the completed rows have been through \<open>pd.to_numeric\<close>.
\<close>

record 'p sale =
  order_id :: "string option"
  seller_sku :: string
  products :: "string option"
  final_sku :: string
  status :: string
  channel :: "string option"
  created_at :: "datetime option"
  order_price :: 'p

definition to_datetime_coerce :: "(string \<Rightarrow> datetime option) \<Rightarrow> string option \<Rightarrow> datetime option" where
  \<comment> \<open>\<open>pd.to_datetime(col, errors="coerce")\<close> on one cell. The parser of pandas is the
      parameter \<open>parse\<close>; text it rejects and a missing cell both give NaT (\<open>None\<close>).\<close>
  "to_datetime_coerce parse c = (case c of None \<Rightarrow> None | Some s \<Rightarrow> parse s)"

definition is_corrupted_sku :: "string \<Rightarrow> bool" where
  "is_corrupted_sku sku =
     (prefix ''vof-'' sku \<or> count_list sku CHR ''-'' > 1 \<or> length sku > 20)"

definition sku_tokens :: "string option \<Rightarrow> string list" where
  \<comment> \<open>The \<open>Seller SKUs\<close> cell as the list that \<open>explode\<close> turns into rows, each token
      stripped.\<close>
  "sku_tokens c = map strip (split CHR '','' (replace_bar (astype_str c)))"

definition resolve_final_sku :: "string \<Rightarrow> string option \<Rightarrow> string" where
  \<comment> \<open>The \<open>Final SKU\<close> column: the \<open>apply\<close> over the rows, then \<open>astype(str).str.strip()\<close>.\<close>
  "resolve_final_sku tok product =
     strip (astype_str (if is_corrupted_sku tok then product else Some tok))"

definition explode_row :: "(string \<Rightarrow> datetime option) \<Rightarrow> raw_sale \<Rightarrow> string option sale list" where
  \<comment> \<open>The rows one raw row becomes. The column steps of \<open>process_data\<close> act on each
      row by itself, and here they are applied to one raw row: \<open>to_datetime\<close> on the
      timestamp, the split of \<open>Seller SKUs\<close> and \<open>explode\<close> (every other column is
      repeated on each new row), the \<open>Final SKU\<close> column, and the upper-cased status.\<close>
  "explode_row parse r =
     map (\<lambda>tok. \<lparr> order_id = raw_order_id r,
                  seller_sku = tok,
                  products = raw_products r,
                  final_sku = resolve_final_sku tok (raw_products r),
                  status = upper (astype_str (raw_status r)),
                  channel = raw_channel r,
                  created_at = to_datetime_coerce parse (raw_created_at r),
                  order_price = raw_order_price r \<rparr>)
         (sku_tokens (raw_seller_skus r))"

definition process_data :: "(string \<Rightarrow> datetime option) \<Rightarrow> raw_sale list \<Rightarrow> string option sale list" where
  \<comment> \<open>The sales table that \<open>process_data\<close> returns: the rows of all raw rows in order,
      without those whose \<open>Final SKU\<close> is empty. A table is the list of its rows; what
      pandas does with a frame that has no row at all is not modelled.\<close>
  "process_data parse sales =
     filter (\<lambda>r. final_sku r \<noteq> '''') (concat (map (explode_row parse) sales))"

definition has_final_sku :: "raw_sale \<Rightarrow> bool" where
  \<comment> \<open>Not in the source: some token of the raw row resolves to a \<open>Final SKU\<close> that is
      not empty, so that the raw row leaves a row in the returned table.\<close>
  "has_final_sku raw =
     (\<exists>t\<in>set (sku_tokens (raw_seller_skus raw)).
        resolve_final_sku t (raw_products raw) \<noteq> '''')"

section \<open>Cancelled and completed rows\<close>

definition is_cancel :: "'p sale \<Rightarrow> bool" where
  \<comment> \<open>\<open>sales[status_col].str.contains("CANCEL", na=False)\<close> on one row\<close>
  "is_cancel r = str_contains ''CANCEL'' (status r)"

definition cancelled_orders :: "'p sale list \<Rightarrow> 'p sale list" where
  "cancelled_orders sales = filter is_cancel sales"

definition to_numeric_coerce :: "(string \<Rightarrow> real option) \<Rightarrow> string option \<Rightarrow> real option" where
  \<comment> \<open>\<open>pd.to_numeric(col, errors="coerce")\<close> on one cell. The parser of pandas is the
      parameter \<open>parse\<close>; text it rejects and a missing cell both give NaN (\<open>None\<close>).\<close>
  "to_numeric_coerce parse c = (case c of None \<Rightarrow> None | Some s \<Rightarrow> parse s)"

definition fillna0 :: "real option \<Rightarrow> real" where
  \<comment> \<open>\<open>.fillna(0)\<close> on one number\<close>
  "fillna0 v = (case v of None \<Rightarrow> 0 | Some x \<Rightarrow> x)"

definition numeric_price :: "(string \<Rightarrow> real option) \<Rightarrow> string option sale \<Rightarrow> real sale" where
  \<comment> \<open>The row with its \<open>Order Price\<close> replaced by
      \<open>pd.to_numeric(..., errors="coerce").fillna(0)\<close>.\<close>
  "numeric_price parse r =
     \<lparr> order_id = order_id r, seller_sku = seller_sku r, products = products r,
       final_sku = final_sku r, status = status r, channel = channel r,
       created_at = created_at r,
       order_price = fillna0 (to_numeric_coerce parse (order_price r)) \<rparr>"

definition completed_sales :: "(string \<Rightarrow> real option) \<Rightarrow> string option sale list \<Rightarrow> real sale list" where
  "completed_sales parse sales = map (numeric_price parse) (filter (\<lambda>r. \<not> is_cancel r) sales)"

definition order_date :: "'p sale \<Rightarrow> date option" where
  \<comment> \<open>The \<open>Order Date\<close> column, \<open>.dt.date\<close>: NaT stays missing.\<close>
  "order_date r = map_option fst (created_at r)"

section \<open>Grouping\<close>

text \<open>
  \<open>groupby\<close> and \<open>pivot_table\<close> leave out the rows whose key is missing (\<open>dropna=True\<close>),
  and list the keys that remain in sorted order. A key function gives \<open>None\<close> for a
  missing key. The order in which \<open>sort_values\<close> then shows a table is not modelled.
\<close>

definition group_keys :: "('r \<Rightarrow> 'k::linorder option) \<Rightarrow> 'r list \<Rightarrow> 'k list" where
  "group_keys key rows = sort (remdups (List.map_filter key rows))"

definition group_rows :: "('r \<Rightarrow> 'k option) \<Rightarrow> 'r list \<Rightarrow> 'k \<Rightarrow> 'r list" where
  "group_rows key rows k = filter (\<lambda>r. key r = Some k) rows"

definition groupby_size :: "('r \<Rightarrow> 'k::linorder option) \<Rightarrow> 'r list \<Rightarrow> ('k \<times> nat) list" where
  \<comment> \<open>\<open>rows.groupby(key).size()\<close>\<close>
  "groupby_size key rows = map (\<lambda>k. (k, length (group_rows key rows k))) (group_keys key rows)"

definition groupby_sum :: "('r \<Rightarrow> 'k::linorder option) \<Rightarrow> ('r \<Rightarrow> real) \<Rightarrow> 'r list \<Rightarrow> ('k \<times> real) list" where
  \<comment> \<open>\<open>rows.groupby(key)[val].sum()\<close>\<close>
  "groupby_sum key val rows =
     map (\<lambda>k. (k, sum_list (map val (group_rows key rows k)))) (group_keys key rows)"

record ('i, 'c) pivot =
  pv_index :: "'i list"
  pv_columns :: "'c list"
  pv_cells :: "nat list list"

definition pivot_size ::
  "('r \<Rightarrow> 'i::linorder option) \<Rightarrow> ('r \<Rightarrow> 'c::linorder option) \<Rightarrow> 'r list \<Rightarrow> ('i, 'c) pivot" where
  \<comment> \<open>\<open>rows.pivot_table(index=ikey, columns=ckey, aggfunc="size", fill_value=0)\<close>: the
      groups are those of \<open>groupby([ikey, ckey])\<close>, so a row that misses either key is in
      no cell; a pair of keys without a row has the cell 0.\<close>
  "pivot_size ikey ckey rows =
     (let kept = filter (\<lambda>r. ikey r \<noteq> None \<and> ckey r \<noteq> None) rows;
          idx = group_keys ikey kept;
          cols = group_keys ckey kept
      in \<lparr> pv_index = idx, pv_columns = cols,
           pv_cells = map (\<lambda>i. map (\<lambda>c. length (group_rows ckey (group_rows ikey rows i) c)) cols) idx \<rparr>)"

definition cells_total :: "('i, 'c) pivot \<Rightarrow> nat" where
  \<comment> \<open>the sum over all cells\<close>
  "cells_total p = sum_list (map sum_list (pv_cells p))"

definition lookup0 :: "('k \<times> 'v::zero) list \<Rightarrow> 'k \<Rightarrow> 'v" where
  \<comment> \<open>The entry of a grouped table at a key, 0 where the table has no such group.\<close>
  "lookup0 tbl k = (case map_of tbl k of None \<Rightarrow> 0 | Some v \<Rightarrow> v)"

definition nunique :: "'a option list \<Rightarrow> nat" where
  \<comment> \<open>\<open>Series.nunique()\<close>: the distinct values, missing ones not counted\<close>
  "nunique col = length (remdups (List.map_filter (\<lambda>c. c) col))"

definition mean :: "real list \<Rightarrow> real option" where
  \<comment> \<open>\<open>Series.mean()\<close>: NaN (\<open>None\<close>) on an empty series\<close>
  "mean xs = (if xs = [] then None else Some (sum_list xs / real (length xs)))"

section \<open>The views\<close>

subsection \<open>Business overview\<close>

definition units_sold :: "real sale list \<Rightarrow> nat" where
  \<comment> \<open>\<open>len(completed_sales)\<close>\<close>
  "units_sold completed = length completed"

definition net_revenue :: "real sale list \<Rightarrow> real" where
  \<comment> \<open>\<open>completed_sales["Order Price"].sum()\<close>\<close>
  "net_revenue completed = sum_list (map order_price completed)"

subsection \<open>Inventory health\<close>

record inv_row =
  sku_code :: "string option"
  available_atp :: "real option"

text \<open>
  A row of the merged table \<open>data\<close>. After \<open>fillna(0)\<close> no number is missing; in the
  \<open>SKU\<close> column \<open>None\<close> stands for what \<open>fillna(0)\<close> leaves where an inventory row has no
  SKU code.
\<close>

record recon_row =
  sku :: "string option"
  total_sold :: real
  available :: real
  stock_to_order :: real

definition sku_sales :: "real sale list \<Rightarrow> (string \<times> nat) list" where
  \<comment> \<open>\<open>completed_sales.groupby("Final SKU").size()\<close>; a \<open>Final SKU\<close> is never missing.\<close>
  "sku_sales completed = groupby_size (\<lambda>r. Some (final_sku r)) completed"

definition merge_outer ::
  "(string \<times> nat) list \<Rightarrow> inv_row list \<Rightarrow> (string option \<times> nat option \<times> real option) list" where
  \<comment> \<open>\<open>pd.merge(left, right, on="SKU", how="outer")\<close>: a left row once for each right row
      with its key, or once with the right side missing; then the right rows whose key
      no left row has, with the left side missing. The keys of \<open>left\<close> are distinct and
      none is missing. The order of the rows is not modelled.\<close>
  "merge_outer left right =
     concat (map (\<lambda>(k, n).
        (let ms = filter (\<lambda>i. sku_code i = Some k) right
         in if ms = [] then [(Some k, Some n, None)]
            else map (\<lambda>i. (Some k, Some n, available_atp i)) ms)) left)
     @ map (\<lambda>i. (sku_code i, None, available_atp i))
           (filter (\<lambda>i. sku_code i \<notin> set (map (\<lambda>(k, n). Some k) left)) right)"

definition clip_lower :: "real \<Rightarrow> real \<Rightarrow> real" where
  \<comment> \<open>\<open>.clip(lower=l)\<close> on one number\<close>
  "clip_lower l x = (if x < l then l else x)"

definition recon_data :: "real sale list \<Rightarrow> inv_row list \<Rightarrow> recon_row list" where
  \<comment> \<open>The table \<open>data\<close>: the merge, \<open>fillna(0)\<close>, and the column \<open>Stock To Order\<close>.\<close>
  "recon_data completed inventory =
     map (\<lambda>(k, n, a).
            let sold = fillna0 (map_option real n); avail = fillna0 a
            in \<lparr> sku = k, total_sold = sold, available = avail,
                 stock_to_order = clip_lower 0 (sold - avail) \<rparr>)
         (merge_outer (sku_sales completed) inventory)"

definition dead_stock :: "recon_row list \<Rightarrow> recon_row list" where
  "dead_stock data = filter (\<lambda>d. total_sold d = 0 \<and> available d > 0) data"

subsection \<open>Sales performance\<close>

definition channel_data :: "real sale list \<Rightarrow> (string \<times> nat) list" where
  \<comment> \<open>\<open>completed_sales.groupby("Channel").size()\<close>, also \<open>channel_units\<close>\<close>
  "channel_data completed = groupby_size channel completed"

definition sku_revenue :: "real sale list \<Rightarrow> (string \<times> real) list" where
  \<comment> \<open>The column \<open>Total_Revenue\<close> of \<open>sku_qty_val\<close> and of \<open>sku_value_table\<close>; their
      unit columns are \<open>sku_sales\<close>.\<close>
  "sku_revenue completed = groupby_sum (\<lambda>r. Some (final_sku r)) order_price completed"

subsection \<open>Cancel report\<close>

definition cancelled_sku_channel :: "'p sale list \<Rightarrow> (string, string) pivot" where
  "cancelled_sku_channel cancelled = pivot_size (\<lambda>r. Some (final_sku r)) channel cancelled"

subsection \<open>Analytics\<close>

definition daily_units :: "real sale list \<Rightarrow> (date \<times> nat) list" where
  \<comment> \<open>\<open>completed_sales.groupby("Order Date").size()\<close>\<close>
  "daily_units completed = groupby_size order_date completed"

definition daily_rev :: "real sale list \<Rightarrow> (date \<times> real) list" where
  \<comment> \<open>\<open>completed_sales.groupby("Order Date")["Order Price"].sum()\<close>\<close>
  "daily_rev completed = groupby_sum order_date order_price completed"

definition avg_units :: "real sale list \<Rightarrow> real option" where
  "avg_units completed = mean (map (\<lambda>(d, n). real n) (daily_units completed))"

definition avg_price :: "real sale list \<Rightarrow> real option" where
  "avg_price completed = mean (map snd (daily_rev completed))"

definition aov :: "real sale list \<Rightarrow> real" where
  "aov completed =
     (let total_rev_sum = net_revenue completed;
          unique_order_count = nunique (map order_id completed)
      in if unique_order_count > 0 then total_rev_sum / real unique_order_count else 0)"

record daily_channel =
  dc_matrix :: "(date, string) pivot"
  dc_total_units :: "nat list"
  dc_total_revenue :: "real option list"

definition daily_channel_table :: "real sale list \<Rightarrow> daily_channel" where
  \<comment> \<open>The date by channel matrix with the two added columns: the sum of each row, and
      \<open>daily_rev\<close> aligned on the dates of the matrix.\<close>
  "daily_channel_table completed =
     (let m = pivot_size order_date channel completed
      in \<lparr> dc_matrix = m,
           dc_total_units = map sum_list (pv_cells m),
           dc_total_revenue = map (map_of (daily_rev completed)) (pv_index m) \<rparr>)"

section \<open>Example inputs\<close>

definition ex_to_datetime :: "string \<Rightarrow> datetime option" where
  "ex_to_datetime s = (if s = ''2024-01-05 10:30'' then Some (19727, 37800) else None)"

definition ex_to_numeric :: "string \<Rightarrow> real option" where
  "ex_to_numeric s = (if s = ''100'' then Some 100 else if s = ''300'' then Some 300 else None)"

definition ex_raw_widget :: raw_sale where
  "ex_raw_widget =
     \<lparr> raw_order_id = Some ''A1'', raw_seller_skus = Some ''vof-99|SKU2'',
       raw_products = Some ''Widget'', raw_status = Some ''Shipped'',
       raw_channel = Some ''AMAZON'', raw_created_at = Some ''2024-01-05 10:30'',
       raw_order_price = Some ''100'' \<rparr>"

definition ex_raw_blank_sku :: raw_sale where
  \<comment> \<open>a row whose SKU field is one space\<close>
  "ex_raw_blank_sku =
     \<lparr> raw_order_id = Some ''A2'', raw_seller_skus = Some '' '',
       raw_products = Some ''Widget'', raw_status = Some ''Shipped'',
       raw_channel = Some ''AMAZON'', raw_created_at = Some ''2024-01-05 10:30'',
       raw_order_price = Some ''100'' \<rparr>"

definition ex_raw_cancelled :: raw_sale where
  \<comment> \<open>a cancelled row with an empty channel field\<close>
  "ex_raw_cancelled =
     \<lparr> raw_order_id = Some ''A4'', raw_seller_skus = Some ''SKU2'',
       raw_products = Some ''Widget'', raw_status = Some ''cancelled by customer'',
       raw_channel = None, raw_created_at = Some ''2024-01-05 10:30'',
       raw_order_price = Some ''100'' \<rparr>"

definition ex_raw_no_status :: raw_sale where
  \<comment> \<open>a row with empty status and channel fields, a date and a price that do not parse\<close>
  "ex_raw_no_status =
     \<lparr> raw_order_id = Some ''A3'', raw_seller_skus = Some ''SKU-7'',
       raw_products = Some ''Gadget'', raw_status = None,
       raw_channel = None, raw_created_at = Some ''soon'',
       raw_order_price = Some ''n/a'' \<rparr>"

definition ex_sale :: "string \<Rightarrow> string \<Rightarrow> string option \<Rightarrow> datetime option \<Rightarrow> 'p \<Rightarrow> 'p sale" where
  \<comment> \<open>a row of order \<open>A1\<close> with the given SKU, status, channel, date and price\<close>
  "ex_sale k st ch dt p =
     \<lparr> order_id = Some ''A1'', seller_sku = k, products = Some ''Widget'', final_sku = k,
       status = st, channel = ch, created_at = dt, order_price = p \<rparr>"

definition ex_raw_bad_date :: raw_sale where
  \<comment> \<open>a shipped row whose date does not parse\<close>
  "ex_raw_bad_date =
     \<lparr> raw_order_id = Some ''A5'', raw_seller_skus = Some ''SKU2'',
       raw_products = Some ''Widget'', raw_status = Some ''Shipped'',
       raw_channel = Some ''AMAZON'', raw_created_at = Some ''soon'',
       raw_order_price = Some ''300'' \<rparr>"

definition ex_raw_cancelled_bad_date :: raw_sale where
  \<comment> \<open>a cancelled row whose date does not parse\<close>
  "ex_raw_cancelled_bad_date =
     \<lparr> raw_order_id = Some ''A6'', raw_seller_skus = Some ''SKU2'',
       raw_products = Some ''Widget'', raw_status = Some ''Cancelled'',
       raw_channel = Some ''AMAZON'', raw_created_at = Some ''soon'',
       raw_order_price = Some ''100'' \<rparr>"

definition ex_completed :: "real sale list" where
  \<comment> \<open>three completed units of the SKU \<open>X\<close>\<close>
  "ex_completed = [ex_sale ''X'' ''SHIPPED'' (Some ''AMAZON'') None 100,
                   ex_sale ''X'' ''SHIPPED'' (Some ''AMAZON'') None 100,
                   ex_sale ''X'' ''SHIPPED'' None None 100]"

definition ex_inventory :: "inv_row list" where
  "ex_inventory = [\<lparr> sku_code = Some ''X'', available_atp = Some 1 \<rparr>,
                   \<lparr> sku_code = Some ''Y'', available_atp = Some 4 \<rparr>,
                   \<lparr> sku_code = Some ''Z'', available_atp = None \<rparr>]"

lemmas pipeline_defs =
  process_data_def explode_row_def sku_tokens_def astype_str_def replace_bar_def strip_def
  isspace_def resolve_final_sku_def is_corrupted_sku_def upper_def upper_char_def
  to_datetime_coerce_def

section \<open>Text\<close>

lemma rev_dropWhile_rev_prefix: "prefix (rev (dropWhile P (rev t))) t"
proof -
  have "t = rev (dropWhile P (rev t)) @ rev (takeWhile P (rev t))"
    by (metis rev_append rev_rev_ident takeWhile_dropWhile_id)
  then show ?thesis by (metis prefixI)
qed

lemma dropWhile_strip: "dropWhile isspace (strip s) = strip s"
proof (cases "strip s")
  case Nil
  then show ?thesis by simp
next
  case (Cons x xs)
  let ?t = "dropWhile isspace s"
  have p: "prefix (strip s) ?t" unfolding strip_def by (rule rev_dropWhile_rev_prefix)
  with Cons obtain zs where t: "?t = x # (xs @ zs)" by (auto simp: prefix_def)
  have "\<not> isspace x" using hd_dropWhile[of isspace s] unfolding t by simp
  with Cons show ?thesis by simp
qed

lemma strip_idem: "strip (strip s) = strip s"
proof -
  have "strip (strip s) = rev (dropWhile isspace (rev (strip s)))"
    by (simp add: strip_def[of "strip s"] dropWhile_strip)
  also have "\<dots> = strip s"
    by (simp add: strip_def)
  finally show ?thesis .
qed

lemma split_not_Nil: "split sep s \<noteq> []"
  by (induction s) (auto simp: Let_def)

lemma sku_tokens_not_Nil: "sku_tokens c \<noteq> []"
  by (simp add: sku_tokens_def split_not_Nil)

lemma sku_tokens_stripped: "t \<in> set (sku_tokens c) \<Longrightarrow> strip t = t"
  by (auto simp: sku_tokens_def strip_idem)

lemma str_contains_sublist: "str_contains pat s = sublist pat s"
  by (induction s) (auto simp: sublist_Cons_right)

section \<open>The SKU canonicalizer\<close>

text \<open>
  C1. For every row of the table that \<open>process_data\<close> returns, the SKU token is trimmed;
  if the token starts with \<open>vof-\<close>, or has more than one hyphen, or is longer than 20
  characters, then the final SKU is the row's product name, trimmed (a missing product
  name reads as the text \<open>nan\<close>); otherwise the final SKU is the token itself. In
  particular a token with exactly one hyphen, at most 20 characters and no \<open>vof-\<close>
  prefix is kept.
\<close>

theorem final_sku_resolution:
  assumes "r \<in> set (process_data parse raws)"
  shows "strip (seller_sku r) = seller_sku r \<and>
         final_sku r =
           (if prefix ''vof-'' (seller_sku r) \<or> count_list (seller_sku r) CHR ''-'' > 1
               \<or> length (seller_sku r) > 20
            then strip (astype_str (products r)) else seller_sku r) \<and>
         (count_list (seller_sku r) CHR ''-'' = 1 \<and> length (seller_sku r) \<le> 20
            \<and> \<not> prefix ''vof-'' (seller_sku r) \<longrightarrow> final_sku r = seller_sku r)"
  using assms
  by (auto simp: process_data_def explode_row_def resolve_final_sku_def is_corrupted_sku_def
        sku_tokens_stripped astype_str_def)

theorem final_sku_resolution_witness:
  "hd (process_data ex_to_datetime [ex_raw_widget]) \<in> set (process_data ex_to_datetime [ex_raw_widget]) \<and>
   seller_sku (hd (process_data ex_to_datetime [ex_raw_widget])) = ''vof-99'' \<and>
   final_sku (hd (process_data ex_to_datetime [ex_raw_widget])) = ''Widget''"
  using final_sku_resolution
    [of "hd (process_data ex_to_datetime [ex_raw_widget])" ex_to_datetime "[ex_raw_widget]"]
  by (simp add: process_data_def explode_row_def sku_tokens_def astype_str_def replace_bar_def
        strip_def isspace_def resolve_final_sku_def is_corrupted_sku_def ex_raw_widget_def)

section \<open>The order classifier\<close>

lemma is_cancel_numeric_price: "is_cancel (numeric_price num r) = is_cancel r"
  by (simp add: is_cancel_def numeric_price_def)

lemma completed_sales_append:
  "completed_sales num (xs @ ys) = completed_sales num xs @ completed_sales num ys"
  by (simp add: completed_sales_def)

lemma completed_sales_insert:
  "\<not> is_cancel r \<Longrightarrow>
   completed_sales num (xs @ r # ys)
     = completed_sales num xs @ numeric_price num r # completed_sales num ys"
  by (simp add: completed_sales_def)

lemma cancelled_orders_skip:
  "\<not> is_cancel r \<Longrightarrow> cancelled_orders (xs @ r # ys) = cancelled_orders (xs @ ys)"
  by (simp add: cancelled_orders_def)

text \<open>
  C2. The classification is a partition of the rows of any sales table: a row is among
  the cancelled rows exactly when its status contains \<open>CANCEL\<close>, and among the completed
  rows (there with its price made numeric) exactly when it does not; no cancelled row is
  completed and every completed row comes from a row that is not cancelled; the two
  parts together have as many rows as the table. The status of a row is the upper-cased
  text of the raw status cell.
\<close>

theorem cancelled_completed_partition:
  "(\<forall>r\<in>set sales.
      (r \<in> set (cancelled_orders sales) \<longleftrightarrow> sublist ''CANCEL'' (status r)) \<and>
      (numeric_price num r \<in> set (completed_sales num sales)
         \<longleftrightarrow> \<not> sublist ''CANCEL'' (status r))) \<and>
   (\<forall>c\<in>set (cancelled_orders sales).
      c \<in> set sales \<and> numeric_price num c \<notin> set (completed_sales num sales)) \<and>
   (\<forall>c\<in>set (completed_sales num sales).
      \<exists>r\<in>set sales. c = numeric_price num r \<and> r \<notin> set (cancelled_orders sales)) \<and>
   length (cancelled_orders sales) + length (completed_sales num sales) = length sales \<and>
   (\<forall>r\<in>set (explode_row parse raw). status r = upper (astype_str (raw_status raw)))"
proof -
  have a: "numeric_price num r \<in> set (completed_sales num sales) \<longleftrightarrow> \<not> is_cancel r"
    if "r \<in> set sales" for r
  proof
    assume "numeric_price num r \<in> set (completed_sales num sales)"
    then obtain r' where "\<not> is_cancel r'" "numeric_price num r = numeric_price num r'"
      by (auto simp: completed_sales_def)
    then show "\<not> is_cancel r" by (metis is_cancel_numeric_price)
  next
    assume "\<not> is_cancel r"
    with that show "numeric_price num r \<in> set (completed_sales num sales)"
      by (auto simp: completed_sales_def)
  qed
  have b: "length (cancelled_orders sales) + length (completed_sales num sales) = length sales"
    by (simp add: cancelled_orders_def completed_sales_def sum_length_filter_compl)
  have c: "\<forall>r\<in>set (explode_row parse raw). status r = upper (astype_str (raw_status raw))"
    by (auto simp: explode_row_def)
  have d: "\<forall>c\<in>set (completed_sales num sales).
             \<exists>r\<in>set sales. c = numeric_price num r \<and> r \<notin> set (cancelled_orders sales)"
    by (auto simp: completed_sales_def cancelled_orders_def)
  have e: "\<forall>c\<in>set (cancelled_orders sales).
             c \<in> set sales \<and> numeric_price num c \<notin> set (completed_sales num sales)"
    using a by (auto simp: cancelled_orders_def)
  have f: "\<forall>r\<in>set sales. r \<in> set (cancelled_orders sales) \<longleftrightarrow> sublist ''CANCEL'' (status r)"
    by (simp add: cancelled_orders_def is_cancel_def str_contains_sublist)
  show ?thesis
    using a b c d e f unfolding is_cancel_def str_contains_sublist by blast
qed

theorem cancelled_completed_partition_witness:
  "ex_sale ''SKU2'' ''CANCELLED BY CUSTOMER'' None None (Some ''100'')
     \<in> set (cancelled_orders
              [ex_sale ''SKU2'' ''CANCELLED BY CUSTOMER'' None None (Some ''100''),
               ex_sale ''SKU2'' ''SHIPPED'' None None (Some ''100'')]) \<and>
   length (cancelled_orders
              [ex_sale ''SKU2'' ''CANCELLED BY CUSTOMER'' None None (Some ''100''),
               ex_sale ''SKU2'' ''SHIPPED'' None None (Some ''100'')])
   + length (completed_sales ex_to_numeric
              [ex_sale ''SKU2'' ''CANCELLED BY CUSTOMER'' None None (Some ''100''),
               ex_sale ''SKU2'' ''SHIPPED'' None None (Some ''100'')]) = 2"
  using cancelled_completed_partition
    [of "[ex_sale ''SKU2'' ''CANCELLED BY CUSTOMER'' None None (Some ''100''),
          ex_sale ''SKU2'' ''SHIPPED'' None None (Some ''100'')]"
        ex_to_numeric ex_to_datetime ex_raw_widget]
  by (simp add: ex_sale_def str_contains_sublist [symmetric])

section \<open>The number of rows\<close>

lemma process_data_Cons:
  "process_data parse (raw # raws) =
     filter (\<lambda>r. final_sku r \<noteq> '''') (explode_row parse raw) @ process_data parse raws"
  by (simp add: process_data_def)

lemma length_explode_row: "length (explode_row parse raw) \<ge> 1"
  using sku_tokens_not_Nil [of "raw_seller_skus raw"]
  by (cases "sku_tokens (raw_seller_skus raw)") (auto simp: explode_row_def)

lemma explode_all_count: "length (concat (map (explode_row parse) raws)) \<ge> length raws"
proof (induction raws)
  case Nil
  show ?case by simp
next
  case (Cons raw raws)
  then show ?case using length_explode_row [of parse raw] by simp
qed

lemma kept_rows_of_raw:
  assumes "has_final_sku raw"
  shows "length (filter (\<lambda>r. final_sku r \<noteq> '''') (explode_row parse raw)) \<ge> 1"
proof -
  from assms obtain t where "t \<in> set (sku_tokens (raw_seller_skus raw))"
      and "resolve_final_sku t (raw_products raw) \<noteq> ''''"
    by (auto simp: has_final_sku_def)
  then have "filter (\<lambda>r. final_sku r \<noteq> '''') (explode_row parse raw) \<noteq> []"
    by (auto simp: explode_row_def filter_empty_conv)
  then show ?thesis
    by (cases "filter (\<lambda>r. final_sku r \<noteq> '''') (explode_row parse raw)") auto
qed

lemma no_rows_of_raw:
  assumes "\<not> has_final_sku raw"
  shows "filter (\<lambda>r. final_sku r \<noteq> '''') (explode_row parse raw) = []"
  using assms by (auto simp: has_final_sku_def explode_row_def filter_empty_conv)

lemma process_data_resolving:
  "process_data parse (filter has_final_sku raws) = process_data parse raws"
proof (induction raws)
  case Nil
  show ?case by simp
next
  case (Cons raw raws)
  then show ?case
    by (cases "has_final_sku raw") (simp_all add: process_data_Cons no_rows_of_raw)
qed

text \<open>
  C3, as the code has it. The expansion alone gives at least as many rows as there are
  raw rows. After the rows with an empty final SKU are dropped, the table has at least
  as many rows as there are raw rows with a token that resolves to a final SKU that is
  not empty. A raw row all of whose tokens resolve to the empty text leaves no row: none
  of its rows is kept, alone it gives the empty table, and any table is the same with
  and without it; so the returned table is that of the raw rows that have such a token.
\<close>

theorem canonical_row_count:
  "length (concat (map (explode_row parse) raws)) \<ge> length raws \<and>
   length (process_data parse raws) \<ge> length (filter has_final_sku raws) \<and>
   (\<forall>raw. \<not> has_final_sku raw \<longrightarrow>
      filter (\<lambda>r. final_sku r \<noteq> '''') (explode_row parse raw) = [] \<and>
      process_data parse [raw] = [] \<and>
      process_data parse (xs @ raw # ys) = process_data parse (xs @ ys)) \<and>
   process_data parse (filter has_final_sku raws) = process_data parse raws"
proof -
  have a: "length (concat (map (explode_row parse) raws)) \<ge> length raws"
    by (rule explode_all_count)
  have b: "length (process_data parse raws) \<ge> length (filter has_final_sku raws)"
  proof (induction raws)
    case Nil
    show ?case by (simp add: process_data_def)
  next
    case (Cons raw raws)
    show ?case
    proof (cases "has_final_sku raw")
      case True
      from kept_rows_of_raw [OF True, of parse] Cons show ?thesis
        by (simp add: process_data_Cons True)
    next
      case False
      with Cons show ?thesis by (simp add: process_data_Cons)
    qed
  qed
  have c: "filter (\<lambda>r. final_sku r \<noteq> '''') (explode_row parse raw) = [] \<and>
      process_data parse [raw] = [] \<and>
      process_data parse (xs @ raw # ys) = process_data parse (xs @ ys)"
    if "\<not> has_final_sku raw" for raw
    using no_rows_of_raw [OF that, of parse] by (simp add: process_data_def)
  have d: "process_data parse (filter has_final_sku raws) = process_data parse raws"
    by (rule process_data_resolving)
  from a b c d show ?thesis by blast
qed

theorem canonical_row_count_witness:
  "\<not> has_final_sku ex_raw_blank_sku \<and>
   process_data ex_to_datetime [ex_raw_blank_sku] = [] \<and>
   process_data ex_to_datetime [ex_raw_widget, ex_raw_blank_sku]
     = process_data ex_to_datetime [ex_raw_widget] \<and>
   length (process_data ex_to_datetime [ex_raw_widget, ex_raw_blank_sku]) \<ge> 1"
proof -
  have blank: "\<not> has_final_sku ex_raw_blank_sku"
    by (simp add: has_final_sku_def sku_tokens_def astype_str_def replace_bar_def strip_def
          isspace_def resolve_final_sku_def is_corrupted_sku_def ex_raw_blank_sku_def)
  have widget: "has_final_sku ex_raw_widget"
    by (simp add: has_final_sku_def sku_tokens_def astype_str_def replace_bar_def strip_def
          isspace_def resolve_final_sku_def is_corrupted_sku_def ex_raw_widget_def)
  from blank widget
  have kept: "filter has_final_sku [ex_raw_widget, ex_raw_blank_sku] = [ex_raw_widget]"
    by simp
  note t = canonical_row_count
    [where parse = ex_to_datetime and raws = "[ex_raw_widget, ex_raw_blank_sku]"
       and xs = "[ex_raw_widget]" and ys = "[]"]
  from t blank have "process_data ex_to_datetime [ex_raw_blank_sku] = []"
    and "process_data ex_to_datetime ([ex_raw_widget] @ [ex_raw_blank_sku])
      = process_data ex_to_datetime ([ex_raw_widget] @ [])"
    by blast+
  moreover from t kept
  have "length (process_data ex_to_datetime [ex_raw_widget, ex_raw_blank_sku]) \<ge> 1"
    by simp
  ultimately show ?thesis using blank by simp
qed

text \<open>
  The claim as it is written fails: a raw row whose SKU field is one space has the single
  token \<open>''''\<close>, which is not malformed and is dropped, so one raw row gives no row.
\<close>

theorem canonical_row_count_counterexample:
  "\<not> length (process_data ex_to_datetime [ex_raw_blank_sku]) \<ge> length [ex_raw_blank_sku]"
  by (simp add: process_data_def explode_row_def sku_tokens_def astype_str_def replace_bar_def
        strip_def isspace_def resolve_final_sku_def is_corrupted_sku_def ex_raw_blank_sku_def)

section \<open>A missing status\<close>

lemma upper_nan: "upper ''nan'' = ''NAN''"
  by (simp add: upper_def upper_char_def)

text \<open>
  C10. A row that comes from a raw row with a missing status cell has the status \<open>NAN\<close>
  and is not cancelled. It is in the returned table unless its final SKU is empty. In
  any table it is left out of the cancelled rows and is one of the completed rows, where
  it adds one unit and its numeric price to the revenue.
\<close>

theorem missing_status_completed:
  assumes "raw \<in> set raws" and "raw_status raw = None" and "r \<in> set (explode_row parse raw)"
  shows "status r = ''NAN'' \<and> \<not> is_cancel r \<and>
         (final_sku r \<noteq> '''' \<longrightarrow> r \<in> set (process_data parse raws)) \<and>
         cancelled_orders (xs @ r # ys) = cancelled_orders (xs @ ys) \<and>
         completed_sales num (xs @ r # ys)
           = completed_sales num xs @ numeric_price num r # completed_sales num ys \<and>
         units_sold (completed_sales num (xs @ r # ys))
           = units_sold (completed_sales num (xs @ ys)) + 1 \<and>
         net_revenue (completed_sales num (xs @ r # ys))
           = net_revenue (completed_sales num (xs @ ys)) + order_price (numeric_price num r)"
proof -
  have st: "status r = ''NAN''"
    using assms(2,3) by (auto simp: explode_row_def astype_str_def upper_nan)
  then have nc: "\<not> is_cancel r" by (simp add: is_cancel_def)
  have kept: "final_sku r \<noteq> '''' \<longrightarrow> r \<in> set (process_data parse raws)"
    using assms(1,3) by (auto simp: process_data_def)
  have ins: "completed_sales num (xs @ r # ys)
      = completed_sales num xs @ numeric_price num r # completed_sales num ys"
    using nc by (rule completed_sales_insert)
  have del: "completed_sales num (xs @ ys) = completed_sales num xs @ completed_sales num ys"
    by (rule completed_sales_append)
  show ?thesis
    using st nc kept
    by (simp add: cancelled_orders_skip ins del units_sold_def net_revenue_def)
qed

theorem missing_status_completed_witness:
  "ex_raw_no_status \<in> set [ex_raw_no_status] \<and> raw_status ex_raw_no_status = None \<and>
   hd (explode_row ex_to_datetime ex_raw_no_status)
     \<in> set (explode_row ex_to_datetime ex_raw_no_status) \<and>
   status (hd (explode_row ex_to_datetime ex_raw_no_status)) = ''NAN'' \<and>
   hd (explode_row ex_to_datetime ex_raw_no_status)
     \<in> set (process_data ex_to_datetime [ex_raw_no_status]) \<and>
   units_sold (completed_sales ex_to_numeric [hd (explode_row ex_to_datetime ex_raw_no_status)])
     = units_sold (completed_sales ex_to_numeric []) + 1"
proof -
  have h1: "ex_raw_no_status \<in> set [ex_raw_no_status]" by simp
  have h2: "raw_status ex_raw_no_status = None" by (simp add: ex_raw_no_status_def)
  have rows: "explode_row ex_to_datetime ex_raw_no_status \<noteq> []"
    by (simp add: explode_row_def sku_tokens_not_Nil)
  then have h3: "hd (explode_row ex_to_datetime ex_raw_no_status)
      \<in> set (explode_row ex_to_datetime ex_raw_no_status)"
    by (rule hd_in_set)
  have h4: "final_sku (hd (explode_row ex_to_datetime ex_raw_no_status)) \<noteq> ''''"
    by (simp add: explode_row_def sku_tokens_def astype_str_def replace_bar_def strip_def
          isspace_def resolve_final_sku_def is_corrupted_sku_def ex_raw_no_status_def)
  from missing_status_completed
    [OF h1 h2 h3, where xs = "[]" and ys = "[]" and num = ex_to_numeric,
     simplified append_Nil] h1 h2 h3 h4
  show ?thesis by blast
qed

section \<open>Grouped tables\<close>

lemma set_group_keys: "set (group_keys key rows) = {k. \<exists>r\<in>set rows. key r = Some k}"
  by (force simp: group_keys_def map_filter_def)

lemma distinct_group_keys: "distinct (group_keys key rows)"
  by (simp add: group_keys_def)

lemma group_rows_empty: "k \<notin> set (group_keys key rows) \<Longrightarrow> group_rows key rows k = []"
  by (auto simp: set_group_keys group_rows_def filter_empty_conv)

lemma map_of_tabulate: "map_of (map (\<lambda>k. (k, f k)) ks) k = (if k \<in> set ks then Some (f k) else None)"
  by (induction ks) auto

lemma lookup0_groupby_size: "lookup0 (groupby_size key rows) k = length (group_rows key rows k)"
  by (simp add: lookup0_def groupby_size_def map_of_tabulate group_rows_empty)

lemma lookup0_groupby_sum: "lookup0 (groupby_sum key val rows) k = sum_list (map val (group_rows key rows k))"
  by (simp add: lookup0_def groupby_sum_def map_of_tabulate group_rows_empty)

lemma group_keys_drop_missing:
  "key r = None \<Longrightarrow> group_keys key (xs @ r # ys) = group_keys key (xs @ ys)"
  by (simp add: group_keys_def map_filter_def)

lemma group_rows_drop_missing:
  "key r = None \<Longrightarrow> group_rows key (xs @ r # ys) k = group_rows key (xs @ ys) k"
  by (simp add: group_rows_def)

lemma groupby_size_drop_missing:
  "key r = None \<Longrightarrow> groupby_size key (xs @ r # ys) = groupby_size key (xs @ ys)"
  by (simp add: groupby_size_def group_keys_drop_missing group_rows_drop_missing)

lemma groupby_sum_drop_missing:
  "key r = None \<Longrightarrow> groupby_sum key val (xs @ r # ys) = groupby_sum key val (xs @ ys)"
  by (simp add: groupby_sum_def group_keys_drop_missing group_rows_drop_missing)

lemma pivot_size_drop_missing:
  "ikey r = None \<or> ckey r = None \<Longrightarrow> pivot_size ikey ckey (xs @ r # ys) = pivot_size ikey ckey (xs @ ys)"
  by (auto simp: pivot_size_def Let_def group_rows_def)

lemma group_rows_insert:
  "key r = Some k \<Longrightarrow> length (group_rows key (xs @ r # ys) k) = length (group_rows key (xs @ ys) k) + 1"
  by (simp add: group_rows_def)

lemma group_sum_insert_zero:
  "val r = 0 \<Longrightarrow> sum_list (map val (group_rows key (xs @ r # ys) k)) = sum_list (map val (group_rows key (xs @ ys) k))"
  by (simp add: group_rows_def)

lemma sum_indicator_distinct:
  "distinct ks \<Longrightarrow> sum_list (map (\<lambda>k. if a = k then 1 else 0) ks) = (if a \<in> set ks then 1 else (0::nat))"
  by (induction ks) auto

lemma sum_group_sizes:
  "distinct ks \<Longrightarrow> \<forall>r\<in>set xs. \<forall>k. f r = Some k \<longrightarrow> k \<in> set ks \<Longrightarrow>
   sum_list (map (\<lambda>k. length (group_rows f xs k)) ks) = length (filter (\<lambda>r. f r \<noteq> None) xs)"
proof (induction xs)
  case Nil
  then show ?case by (simp add: group_rows_def)
next
  case (Cons r xs)
  have split: "\<And>k. length (group_rows f (r # xs) k) = (if f r = Some k then 1 else 0) + length (group_rows f xs k)"
    by (simp add: group_rows_def)
  have ind: "sum_list (map (\<lambda>k. if f r = Some k then 1 else 0) ks) = (if f r \<noteq> None then 1 else (0::nat))"
    using Cons.prems by (cases "f r") (auto simp: sum_indicator_distinct)
  show ?case
    using Cons by (simp add: split sum_list_addf ind)
qed

lemma cells_total_pivot_size:
  "cells_total (pivot_size ikey ckey rows) = length (filter (\<lambda>r. ikey r \<noteq> None \<and> ckey r \<noteq> None) rows)"
proof -
  let ?kept = "filter (\<lambda>r. ikey r \<noteq> None \<and> ckey r \<noteq> None) rows"
  let ?cols = "group_keys ckey ?kept"
  let ?idx = "group_keys ikey ?kept"
  have inner: "sum_list (map (\<lambda>c. length (group_rows ckey (group_rows ikey rows i) c)) ?cols)
        = length (group_rows ikey (filter (\<lambda>r. ckey r \<noteq> None) rows) i)" for i
  proof -
    have "sum_list (map (\<lambda>c. length (group_rows ckey (group_rows ikey rows i) c)) ?cols)
        = length (filter (\<lambda>r. ckey r \<noteq> None) (group_rows ikey rows i))"
      by (rule sum_group_sizes) (auto simp: distinct_group_keys set_group_keys group_rows_def)
    also have "\<dots> = length (group_rows ikey (filter (\<lambda>r. ckey r \<noteq> None) rows) i)"
      by (simp add: group_rows_def conj_commute)
    finally show ?thesis .
  qed
  have "cells_total (pivot_size ikey ckey rows)
      = sum_list (map (\<lambda>i. length (group_rows ikey (filter (\<lambda>r. ckey r \<noteq> None) rows) i)) ?idx)"
    by (simp add: cells_total_def pivot_size_def Let_def comp_def inner del: not_None_eq)
  also have "\<dots> = length (filter (\<lambda>r. ikey r \<noteq> None) (filter (\<lambda>r. ckey r \<noteq> None) rows))"
    by (rule sum_group_sizes) (auto simp: distinct_group_keys set_group_keys)
  also have "\<dots> = length ?kept"
    by (simp add: conj_commute)
  finally show ?thesis .
qed

lemma final_sku_numeric_price: "final_sku (numeric_price num r) = final_sku r"
  by (simp add: numeric_price_def)

lemma channel_numeric_price: "channel (numeric_price num r) = channel r"
  by (simp add: numeric_price_def)

lemma completed_sales_skip:
  "is_cancel r \<Longrightarrow> completed_sales num (xs @ r # ys) = completed_sales num (xs @ ys)"
  by (simp add: completed_sales_def)


section \<open>A price that does not parse\<close>

text \<open>
  C6. A row that is not cancelled and whose amount is missing or is rejected by the parser
  gets the price 0. It stays among the completed rows: it adds one to the units sold and
  to the units of its SKU. It changes no revenue sum: the net revenue, the revenue of
  every SKU and the revenue of every date are what they are without the row.
\<close>

theorem unparseable_price_zero:
  assumes "\<not> is_cancel r"
    and "order_price r = None \<or> (\<exists>s. order_price r = Some s \<and> num s = None)"
  shows "order_price (numeric_price num r) = 0 \<and>
         completed_sales num (xs @ r # ys)
           = completed_sales num xs @ numeric_price num r # completed_sales num ys \<and>
         units_sold (completed_sales num (xs @ r # ys))
           = units_sold (completed_sales num (xs @ ys)) + 1 \<and>
         lookup0 (sku_sales (completed_sales num (xs @ r # ys))) (final_sku r)
           = lookup0 (sku_sales (completed_sales num (xs @ ys))) (final_sku r) + 1 \<and>
         net_revenue (completed_sales num (xs @ r # ys))
           = net_revenue (completed_sales num (xs @ ys)) \<and>
         (\<forall>k. lookup0 (sku_revenue (completed_sales num (xs @ r # ys))) k
           = lookup0 (sku_revenue (completed_sales num (xs @ ys))) k) \<and>
         (\<forall>d. lookup0 (daily_rev (completed_sales num (xs @ r # ys))) d
           = lookup0 (daily_rev (completed_sales num (xs @ ys))) d)"
proof -
  let ?c = "numeric_price num r"
  have zero: "order_price ?c = 0"
    using assms(2) by (auto simp: numeric_price_def to_numeric_coerce_def fillna0_def)
  have ins: "completed_sales num (xs @ r # ys)
      = completed_sales num xs @ ?c # completed_sales num ys"
    using assms(1) by (rule completed_sales_insert)
  have del: "completed_sales num (xs @ ys) = completed_sales num xs @ completed_sales num ys"
    by (rule completed_sales_append)
  have units: "units_sold (completed_sales num (xs @ r # ys))
      = units_sold (completed_sales num (xs @ ys)) + 1"
    by (simp add: units_sold_def ins del)
  have sku: "lookup0 (sku_sales (completed_sales num (xs @ r # ys))) (final_sku r)
      = lookup0 (sku_sales (completed_sales num (xs @ ys))) (final_sku r) + 1"
    unfolding sku_sales_def lookup0_groupby_size ins del
    by (rule group_rows_insert) (simp add: final_sku_numeric_price)
  have net: "net_revenue (completed_sales num (xs @ r # ys))
      = net_revenue (completed_sales num (xs @ ys))"
    by (simp add: net_revenue_def ins del zero)
  have skurev: "lookup0 (sku_revenue (completed_sales num (xs @ r # ys))) k
      = lookup0 (sku_revenue (completed_sales num (xs @ ys))) k" for k
    unfolding sku_revenue_def lookup0_groupby_sum ins del
    using zero by (rule group_sum_insert_zero)
  have dayrev: "lookup0 (daily_rev (completed_sales num (xs @ r # ys))) d
      = lookup0 (daily_rev (completed_sales num (xs @ ys))) d" for d
    unfolding daily_rev_def lookup0_groupby_sum ins del
    using zero by (rule group_sum_insert_zero)
  show ?thesis
    using zero ins units sku net skurev dayrev by blast
qed

theorem unparseable_price_zero_witness:
  "\<not> is_cancel (ex_sale ''SKU2'' ''SHIPPED'' (Some ''AMAZON'') None (Some ''n/a'')) \<and>
   (\<exists>s. order_price (ex_sale ''SKU2'' ''SHIPPED'' (Some ''AMAZON'') None (Some ''n/a'')) = Some s
        \<and> ex_to_numeric s = None) \<and>
   order_price (numeric_price ex_to_numeric
      (ex_sale ''SKU2'' ''SHIPPED'' (Some ''AMAZON'') None (Some ''n/a''))) = 0 \<and>
   units_sold (completed_sales ex_to_numeric
      [ex_sale ''SKU2'' ''SHIPPED'' (Some ''AMAZON'') None (Some ''n/a'')])
     = units_sold (completed_sales ex_to_numeric []) + 1 \<and>
   net_revenue (completed_sales ex_to_numeric
      [ex_sale ''SKU2'' ''SHIPPED'' (Some ''AMAZON'') None (Some ''n/a'')])
     = net_revenue (completed_sales ex_to_numeric [])"
proof -
  let ?r = "ex_sale ''SKU2'' ''SHIPPED'' (Some ''AMAZON'') None (Some ''n/a'')"
  have h1: "\<not> is_cancel ?r"
    by (simp add: is_cancel_def ex_sale_def)
  have h2: "\<exists>s. order_price ?r = Some s \<and> ex_to_numeric s = None"
    by (simp add: ex_sale_def ex_to_numeric_def)
  then have h2': "order_price ?r = None \<or> (\<exists>s. order_price ?r = Some s \<and> ex_to_numeric s = None)" ..
  from unparseable_price_zero
    [OF h1 h2', where xs = "[]" and ys = "[]", simplified append_Nil] h1 h2
  show ?thesis by blast
qed


section \<open>A timestamp that does not parse\<close>

lemma cancelled_orders_insert:
  "is_cancel r \<Longrightarrow>
   cancelled_orders (xs @ r # ys) = cancelled_orders xs @ r # cancelled_orders ys"
  by (simp add: cancelled_orders_def)

lemma group_keys_same_key:
  "key a = key b \<Longrightarrow> group_keys key (xs @ a # ys) = group_keys key (xs @ b # ys)"
  by (simp add: group_keys_def map_filter_def)

lemma group_size_same_key:
  "key a = key b \<Longrightarrow>
   length (group_rows key (xs @ a # ys) k) = length (group_rows key (xs @ b # ys) k)"
  by (simp add: group_rows_def)

lemma group_sum_same_key:
  "key a = key b \<Longrightarrow> val a = val b \<Longrightarrow>
   sum_list (map val (group_rows key (xs @ a # ys) k))
     = sum_list (map val (group_rows key (xs @ b # ys) k))"
  by (simp add: group_rows_def)

lemma groupby_size_same_key:
  "key a = key b \<Longrightarrow> groupby_size key (xs @ a # ys) = groupby_size key (xs @ b # ys)"
  by (simp add: groupby_size_def group_keys_same_key [of key a b] group_size_same_key [of key a b])

lemma groupby_sum_same_key:
  "key a = key b \<Longrightarrow> val a = val b \<Longrightarrow>
   groupby_sum key val (xs @ a # ys) = groupby_sum key val (xs @ b # ys)"
  by (simp add: groupby_sum_def group_keys_same_key [of key a b]
        group_sum_same_key [of key a b val])

lemma pivot_size_same_keys:
  assumes "ikey a = ikey b" and "ckey a = ckey b"
  shows "pivot_size ikey ckey (xs @ a # ys) = pivot_size ikey ckey (xs @ b # ys)"
proof -
  let ?keep = "\<lambda>r. ikey r \<noteq> None \<and> ckey r \<noteq> None"
  have keep: "?keep a = ?keep b" using assms by simp
  have ki: "group_keys ikey (filter ?keep (xs @ a # ys)) = group_keys ikey (filter ?keep (xs @ b # ys))"
    using assms by (simp add: group_keys_def map_filter_def)
  have kc: "group_keys ckey (filter ?keep (xs @ a # ys)) = group_keys ckey (filter ?keep (xs @ b # ys))"
    using assms by (simp add: group_keys_def map_filter_def)
  have cell: "length (group_rows ckey (group_rows ikey (xs @ a # ys) i) c)
      = length (group_rows ckey (group_rows ikey (xs @ b # ys) i) c)" for i c
    using assms by (simp add: group_rows_def)
  show ?thesis
    unfolding pivot_size_def Let_def ki kc cell ..
qed

lemma numeric_price_created_at:
  "numeric_price num (r\<lparr>created_at := t\<rparr>) = (numeric_price num r)\<lparr>created_at := t\<rparr>"
  by (simp add: numeric_price_def)

lemma is_cancel_created_at: "is_cancel (r\<lparr>created_at := t\<rparr>) = is_cancel r"
  by (simp add: is_cancel_def)

lemma timestamp_free_views:
  "sku_sales (completed_sales num (xs @ r\<lparr>created_at := t\<rparr> # ys))
     = sku_sales (completed_sales num (xs @ r # ys)) \<and>
   sku_revenue (completed_sales num (xs @ r\<lparr>created_at := t\<rparr> # ys))
     = sku_revenue (completed_sales num (xs @ r # ys)) \<and>
   channel_data (completed_sales num (xs @ r\<lparr>created_at := t\<rparr> # ys))
     = channel_data (completed_sales num (xs @ r # ys)) \<and>
   cancelled_sku_channel (cancelled_orders (xs @ r\<lparr>created_at := t\<rparr> # ys))
     = cancelled_sku_channel (cancelled_orders (xs @ r # ys))"
proof (cases "is_cancel r")
  case True
  then have c: "is_cancel (r\<lparr>created_at := t\<rparr>)" by (simp add: is_cancel_created_at)
  have "cancelled_sku_channel (cancelled_orders (xs @ r\<lparr>created_at := t\<rparr> # ys))
     = cancelled_sku_channel (cancelled_orders (xs @ r # ys))"
    unfolding cancelled_sku_channel_def cancelled_orders_insert [OF True]
      cancelled_orders_insert [OF c]
    by (rule pivot_size_same_keys) simp_all
  then show ?thesis
    by (simp add: completed_sales_skip True c)
next
  case False
  then have c: "\<not> is_cancel (r\<lparr>created_at := t\<rparr>)" by (simp add: is_cancel_created_at)
  have "sku_sales (completed_sales num (xs @ r\<lparr>created_at := t\<rparr> # ys))
     = sku_sales (completed_sales num (xs @ r # ys))"
    unfolding sku_sales_def completed_sales_insert [OF False] completed_sales_insert [OF c]
    by (rule groupby_size_same_key) (simp add: numeric_price_def)
  moreover have "sku_revenue (completed_sales num (xs @ r\<lparr>created_at := t\<rparr> # ys))
     = sku_revenue (completed_sales num (xs @ r # ys))"
    unfolding sku_revenue_def completed_sales_insert [OF False] completed_sales_insert [OF c]
    by (rule groupby_sum_same_key) (simp_all add: numeric_price_def)
  moreover have "channel_data (completed_sales num (xs @ r\<lparr>created_at := t\<rparr> # ys))
     = channel_data (completed_sales num (xs @ r # ys))"
    unfolding channel_data_def completed_sales_insert [OF False] completed_sales_insert [OF c]
    by (rule groupby_size_same_key) (simp add: numeric_price_def)
  ultimately show ?thesis
    by (simp add: cancelled_orders_skip False c)
qed

lemma channel_data_missing_channel:
  assumes "channel r = None"
  shows "channel_data (completed_sales num (xs @ r # ys))
     = channel_data (completed_sales num (xs @ ys))"
proof (cases "is_cancel r")
  case True
  then show ?thesis by (simp add: completed_sales_skip)
next
  case False
  have ins: "completed_sales num (xs @ r # ys)
      = completed_sales num xs @ numeric_price num r # completed_sales num ys"
    using False by (rule completed_sales_insert)
  have del: "completed_sales num (xs @ ys) = completed_sales num xs @ completed_sales num ys"
    by (rule completed_sales_append)
  show ?thesis
    unfolding channel_data_def ins del
    by (rule groupby_size_drop_missing) (simp add: channel_numeric_price assms)
qed

text \<open>
  C7. A row that comes from a raw row whose timestamp is missing or rejected by the
  parser has no date, and no date-keyed view changes with it: the daily units, the daily
  revenue, the two daily averages and the date by channel matrix with its two total
  columns are what they are without the row. The views keyed by SKU and by channel count
  the row whatever it has for a timestamp: the units and the revenue by SKU, the units by
  channel and the cancellation matrix are the same with any timestamp in its place. So a
  row that is not cancelled adds one to the units of its SKU and one to the units of its
  channel, and a cancelled row adds one to the cancellation matrix at its channel. A row
  whose channel cell is missing has no channel to be counted under: the units by channel
  are the same with and without it, and that does not depend on its timestamp either.
\<close>

theorem unparseable_timestamp_views:
  assumes "r \<in> set (explode_row parse raw)"
    and "raw_created_at raw = None \<or> (\<exists>s. raw_created_at raw = Some s \<and> parse s = None)"
  shows "created_at r = None \<and> order_date (numeric_price num r) = None \<and>
         daily_units (completed_sales num (xs @ r # ys))
           = daily_units (completed_sales num (xs @ ys)) \<and>
         daily_rev (completed_sales num (xs @ r # ys))
           = daily_rev (completed_sales num (xs @ ys)) \<and>
         avg_units (completed_sales num (xs @ r # ys))
           = avg_units (completed_sales num (xs @ ys)) \<and>
         avg_price (completed_sales num (xs @ r # ys))
           = avg_price (completed_sales num (xs @ ys)) \<and>
         daily_channel_table (completed_sales num (xs @ r # ys))
           = daily_channel_table (completed_sales num (xs @ ys)) \<and>
         (\<not> is_cancel r \<longrightarrow>
            lookup0 (sku_sales (completed_sales num (xs @ r # ys))) (final_sku r)
              = lookup0 (sku_sales (completed_sales num (xs @ ys))) (final_sku r) + 1 \<and>
            (\<forall>c. channel r = Some c \<longrightarrow>
               lookup0 (channel_data (completed_sales num (xs @ r # ys))) c
                 = lookup0 (channel_data (completed_sales num (xs @ ys))) c + 1)) \<and>
         (is_cancel r \<longrightarrow> (\<forall>c. channel r = Some c \<longrightarrow>
            cells_total (cancelled_sku_channel (cancelled_orders (xs @ r # ys)))
              = cells_total (cancelled_sku_channel (cancelled_orders (xs @ ys))) + 1)) \<and>
         (\<forall>t. sku_sales (completed_sales num (xs @ r\<lparr>created_at := t\<rparr> # ys))
                = sku_sales (completed_sales num (xs @ r # ys)) \<and>
              sku_revenue (completed_sales num (xs @ r\<lparr>created_at := t\<rparr> # ys))
                = sku_revenue (completed_sales num (xs @ r # ys)) \<and>
              channel_data (completed_sales num (xs @ r\<lparr>created_at := t\<rparr> # ys))
                = channel_data (completed_sales num (xs @ r # ys)) \<and>
              cancelled_sku_channel (cancelled_orders (xs @ r\<lparr>created_at := t\<rparr> # ys))
                = cancelled_sku_channel (cancelled_orders (xs @ r # ys))) \<and>
         (channel r = None \<longrightarrow>
            channel_data (completed_sales num (xs @ r # ys))
              = channel_data (completed_sales num (xs @ ys)))"
proof -
  let ?c = "numeric_price num r"
  let ?with = "completed_sales num (xs @ r # ys)"
  let ?without = "completed_sales num (xs @ ys)"
  have nat: "created_at r = None"
    using assms by (auto simp: explode_row_def to_datetime_coerce_def)
  then have nodate: "order_date ?c = None"
    by (simp add: order_date_def numeric_price_def)
  have del: "?without = completed_sales num xs @ completed_sales num ys"
    by (rule completed_sales_append)
  have views: "daily_units ?with = daily_units ?without \<and> daily_rev ?with = daily_rev ?without \<and>
      pivot_size order_date channel ?with = pivot_size order_date channel ?without"
  proof (cases "is_cancel r")
    case True
    then show ?thesis by (simp add: completed_sales_skip)
  next
    case False
    then have ins: "?with = completed_sales num xs @ ?c # completed_sales num ys"
      by (rule completed_sales_insert)
    show ?thesis
      unfolding daily_units_def daily_rev_def ins del
      using nodate
      by (simp add: groupby_size_drop_missing groupby_sum_drop_missing pivot_size_drop_missing)
  qed
  then have du: "daily_units ?with = daily_units ?without"
    and dr: "daily_rev ?with = daily_rev ?without"
    and pv: "pivot_size order_date channel ?with = pivot_size order_date channel ?without"
    by simp_all
  have au: "avg_units ?with = avg_units ?without"
    unfolding avg_units_def du ..
  have ap: "avg_price ?with = avg_price ?without"
    unfolding avg_price_def dr ..
  have dc: "daily_channel_table ?with = daily_channel_table ?without"
    unfolding daily_channel_table_def pv dr ..
  have sku: "lookup0 (sku_sales ?with) (final_sku r) = lookup0 (sku_sales ?without) (final_sku r) + 1"
    if "\<not> is_cancel r"
    unfolding sku_sales_def lookup0_groupby_size completed_sales_insert [OF that] del
    by (rule group_rows_insert) (simp add: final_sku_numeric_price)
  have ch: "lookup0 (channel_data ?with) c = lookup0 (channel_data ?without) c + 1"
    if "\<not> is_cancel r" and "channel r = Some c" for c
    unfolding channel_data_def lookup0_groupby_size completed_sales_insert [OF that(1)] del
    by (rule group_rows_insert) (simp add: channel_numeric_price that(2))
  have cm: "cells_total (cancelled_sku_channel (cancelled_orders (xs @ r # ys)))
      = cells_total (cancelled_sku_channel (cancelled_orders (xs @ ys))) + 1"
    if "is_cancel r" and "channel r = Some c" for c
    using that
    by (simp add: cancelled_sku_channel_def cells_total_pivot_size cancelled_orders_def)
  have free: "sku_sales (completed_sales num (xs @ r\<lparr>created_at := t\<rparr> # ys))
        = sku_sales (completed_sales num (xs @ r # ys)) \<and>
      sku_revenue (completed_sales num (xs @ r\<lparr>created_at := t\<rparr> # ys))
        = sku_revenue (completed_sales num (xs @ r # ys)) \<and>
      channel_data (completed_sales num (xs @ r\<lparr>created_at := t\<rparr> # ys))
        = channel_data (completed_sales num (xs @ r # ys)) \<and>
      cancelled_sku_channel (cancelled_orders (xs @ r\<lparr>created_at := t\<rparr> # ys))
        = cancelled_sku_channel (cancelled_orders (xs @ r # ys))" for t
    by (rule timestamp_free_views)
  have nochan: "channel_data ?with = channel_data ?without" if "channel r = None"
    using that by (rule channel_data_missing_channel)
  have counted: "(\<not> is_cancel r \<longrightarrow>
        lookup0 (sku_sales ?with) (final_sku r) = lookup0 (sku_sales ?without) (final_sku r) + 1 \<and>
        (\<forall>c. channel r = Some c \<longrightarrow>
           lookup0 (channel_data ?with) c = lookup0 (channel_data ?without) c + 1)) \<and>
      (is_cancel r \<longrightarrow> (\<forall>c. channel r = Some c \<longrightarrow>
        cells_total (cancelled_sku_channel (cancelled_orders (xs @ r # ys)))
          = cells_total (cancelled_sku_channel (cancelled_orders (xs @ ys))) + 1))"
    using sku ch cm by blast
  show ?thesis
    using nat nodate du dr au ap dc counted free nochan by (intro conjI allI impI) blast+
qed

theorem unparseable_timestamp_views_witness:
  "hd (explode_row ex_to_datetime ex_raw_bad_date)
     \<in> set (explode_row ex_to_datetime ex_raw_bad_date) \<and>
   (\<exists>s. raw_created_at ex_raw_bad_date = Some s \<and> ex_to_datetime s = None) \<and>
   \<not> is_cancel (hd (explode_row ex_to_datetime ex_raw_bad_date)) \<and>
   channel (hd (explode_row ex_to_datetime ex_raw_bad_date)) = Some ''AMAZON'' \<and>
   daily_units (completed_sales ex_to_numeric [hd (explode_row ex_to_datetime ex_raw_bad_date)])
     = daily_units (completed_sales ex_to_numeric []) \<and>
   lookup0 (channel_data
       (completed_sales ex_to_numeric [hd (explode_row ex_to_datetime ex_raw_bad_date)])) ''AMAZON''
     = lookup0 (channel_data (completed_sales ex_to_numeric [])) ''AMAZON'' + 1 \<and>
   channel_data (completed_sales ex_to_numeric
       [(hd (explode_row ex_to_datetime ex_raw_bad_date))\<lparr>created_at := Some (19727, 37800)\<rparr>])
     = channel_data (completed_sales ex_to_numeric
       [hd (explode_row ex_to_datetime ex_raw_bad_date)]) \<and>
   hd (explode_row ex_to_datetime ex_raw_no_status)
     \<in> set (explode_row ex_to_datetime ex_raw_no_status) \<and>
   (\<exists>s. raw_created_at ex_raw_no_status = Some s \<and> ex_to_datetime s = None) \<and>
   channel (hd (explode_row ex_to_datetime ex_raw_no_status)) = None \<and>
   channel_data (completed_sales ex_to_numeric [hd (explode_row ex_to_datetime ex_raw_no_status)])
     = channel_data (completed_sales ex_to_numeric []) \<and>
   hd (explode_row ex_to_datetime ex_raw_cancelled_bad_date)
     \<in> set (explode_row ex_to_datetime ex_raw_cancelled_bad_date) \<and>
   (\<exists>s. raw_created_at ex_raw_cancelled_bad_date = Some s \<and> ex_to_datetime s = None) \<and>
   is_cancel (hd (explode_row ex_to_datetime ex_raw_cancelled_bad_date)) \<and>
   channel (hd (explode_row ex_to_datetime ex_raw_cancelled_bad_date)) = Some ''AMAZON'' \<and>
   cells_total (cancelled_sku_channel
       (cancelled_orders [hd (explode_row ex_to_datetime ex_raw_cancelled_bad_date)]))
     = cells_total (cancelled_sku_channel (cancelled_orders ([] :: string option sale list))) + 1"
proof -
  let ?a = "hd (explode_row ex_to_datetime ex_raw_bad_date)"
  let ?b = "hd (explode_row ex_to_datetime ex_raw_no_status)"
  let ?c = "hd (explode_row ex_to_datetime ex_raw_cancelled_bad_date)"
  have a1: "?a \<in> set (explode_row ex_to_datetime ex_raw_bad_date)"
    by (rule hd_in_set) (simp add: explode_row_def sku_tokens_not_Nil)
  have a2: "\<exists>s. raw_created_at ex_raw_bad_date = Some s \<and> ex_to_datetime s = None"
    by (simp add: ex_raw_bad_date_def ex_to_datetime_def)
  then have a2': "raw_created_at ex_raw_bad_date = None
      \<or> (\<exists>s. raw_created_at ex_raw_bad_date = Some s \<and> ex_to_datetime s = None)" ..
  have a3: "\<not> is_cancel ?a"
    by (simp add: is_cancel_def explode_row_def sku_tokens_def astype_str_def replace_bar_def
          strip_def isspace_def upper_def upper_char_def ex_raw_bad_date_def)
  have a4: "channel ?a = Some ''AMAZON''"
    by (simp add: explode_row_def sku_tokens_def astype_str_def replace_bar_def
          strip_def isspace_def ex_raw_bad_date_def)
  note ta = unparseable_timestamp_views
    [OF a1 a2', where xs = "[]" and ys = "[]" and num = ex_to_numeric, simplified append_Nil]
  have b1: "?b \<in> set (explode_row ex_to_datetime ex_raw_no_status)"
    by (rule hd_in_set) (simp add: explode_row_def sku_tokens_not_Nil)
  have b2: "\<exists>s. raw_created_at ex_raw_no_status = Some s \<and> ex_to_datetime s = None"
    by (simp add: ex_raw_no_status_def ex_to_datetime_def)
  then have b2': "raw_created_at ex_raw_no_status = None
      \<or> (\<exists>s. raw_created_at ex_raw_no_status = Some s \<and> ex_to_datetime s = None)" ..
  have b3: "channel ?b = None"
    by (simp add: explode_row_def sku_tokens_def astype_str_def replace_bar_def
          strip_def isspace_def ex_raw_no_status_def)
  note tb = unparseable_timestamp_views
    [OF b1 b2', where xs = "[]" and ys = "[]" and num = ex_to_numeric, simplified append_Nil]
  have c1: "?c \<in> set (explode_row ex_to_datetime ex_raw_cancelled_bad_date)"
    by (rule hd_in_set) (simp add: explode_row_def sku_tokens_not_Nil)
  have c2: "\<exists>s. raw_created_at ex_raw_cancelled_bad_date = Some s \<and> ex_to_datetime s = None"
    by (simp add: ex_raw_cancelled_bad_date_def ex_to_datetime_def)
  then have c2': "raw_created_at ex_raw_cancelled_bad_date = None
      \<or> (\<exists>s. raw_created_at ex_raw_cancelled_bad_date = Some s \<and> ex_to_datetime s = None)" ..
  have c3: "is_cancel ?c"
    by (simp add: is_cancel_def explode_row_def sku_tokens_def astype_str_def replace_bar_def
          strip_def isspace_def upper_def upper_char_def ex_raw_cancelled_bad_date_def)
  have c4: "channel ?c = Some ''AMAZON''"
    by (simp add: explode_row_def sku_tokens_def astype_str_def replace_bar_def
          strip_def isspace_def ex_raw_cancelled_bad_date_def)
  note tc = unparseable_timestamp_views
    [OF c1 c2', where xs = "[]" and ys = "[]" and num = ex_to_numeric, simplified append_Nil]
  from ta a3 a4 have pa: "daily_units (completed_sales ex_to_numeric [?a])
        = daily_units (completed_sales ex_to_numeric []) \<and>
      lookup0 (channel_data (completed_sales ex_to_numeric [?a])) ''AMAZON''
        = lookup0 (channel_data (completed_sales ex_to_numeric [])) ''AMAZON'' + 1 \<and>
      channel_data (completed_sales ex_to_numeric [?a\<lparr>created_at := Some (19727, 37800)\<rparr>])
        = channel_data (completed_sales ex_to_numeric [?a])"
    by blast
  from tb b3 have pb: "channel_data (completed_sales ex_to_numeric [?b])
      = channel_data (completed_sales ex_to_numeric [])"
    by blast
  from tc c3 c4 have pc: "cells_total (cancelled_sku_channel (cancelled_orders [?c]))
      = cells_total (cancelled_sku_channel (cancelled_orders ([] :: string option sale list))) + 1"
    by blast
  from a1 a2 a3 a4 pa b1 b2 b3 pb c1 c2 c3 c4 pc show ?thesis by blast
qed

section \<open>The cancellation matrix\<close>

text \<open>
  C8, as the code has it. The cells of the cancellation matrix sum to the number of
  cancelled rows whose channel cell is not missing; where every cancelled row has a
  channel, that is the number of cancelled rows.
\<close>

theorem cancellation_matrix_total:
  "cells_total (cancelled_sku_channel (cancelled_orders sales))
     = length (filter (\<lambda>r. channel r \<noteq> None) (cancelled_orders sales)) \<and>
   ((\<forall>r\<in>set (cancelled_orders sales). channel r \<noteq> None) \<longrightarrow>
      cells_total (cancelled_sku_channel (cancelled_orders sales))
        = length (cancelled_orders sales))"
proof -
  have "cells_total (cancelled_sku_channel (cancelled_orders sales))
     = length (filter (\<lambda>r. channel r \<noteq> None) (cancelled_orders sales))"
    by (simp add: cancelled_sku_channel_def cells_total_pivot_size)
  moreover have "filter (\<lambda>r. channel r \<noteq> None) (cancelled_orders sales) = cancelled_orders sales"
    if "\<forall>r\<in>set (cancelled_orders sales). channel r \<noteq> None"
    using that by (simp add: filter_id_conv)
  ultimately show ?thesis by simp
qed

theorem cancellation_matrix_total_witness:
  "cells_total (cancelled_sku_channel (cancelled_orders
      [ex_sale ''SKU2'' ''CANCELLED'' (Some ''AMAZON'') None (Some ''100''),
       ex_sale ''SKU2'' ''SHIPPED'' (Some ''AMAZON'') None (Some ''100'')])) = 1"
  using cancellation_matrix_total
    [of "[ex_sale ''SKU2'' ''CANCELLED'' (Some ''AMAZON'') None (Some ''100''),
          ex_sale ''SKU2'' ''SHIPPED'' (Some ''AMAZON'') None (Some ''100'')]"]
  by (simp add: cancelled_orders_def is_cancel_def ex_sale_def)


text \<open>
  The claim as it is written fails on a cancelled row with an empty channel field: the
  matrix has no cell for it, and there is one cancelled row.
\<close>

theorem cancellation_matrix_total_counterexample:
  "cells_total (cancelled_sku_channel (cancelled_orders (process_data ex_to_datetime [ex_raw_cancelled])))
     \<noteq> length (cancelled_orders (process_data ex_to_datetime [ex_raw_cancelled]))"
  by (simp add: cancelled_sku_channel_def cells_total_pivot_size pipeline_defs ex_raw_cancelled_def
        cancelled_orders_def is_cancel_def)


section \<open>The average order value\<close>

lemma nunique_card: "nunique (map f rows) = card {i. \<exists>r\<in>set rows. f r = Some i}"
proof -
  have "set (List.map_filter (\<lambda>c. c) (map f rows)) = {i. \<exists>r\<in>set rows. f r = Some i}"
    by (force simp: map_filter_def)
  then show ?thesis
    by (simp add: nunique_def length_remdups_card_conv)
qed


text \<open>
  C5. The average order value is the sum of the prices of the completed rows divided by
  the number of distinct order identifiers among them (a missing identifier is not one),
  and it is 0 when there is none.
\<close>

theorem aov_value:
  "aov completed =
     (if card {i. \<exists>r\<in>set completed. order_id r = Some i} = 0 then 0
      else sum_list (map order_price completed)
             / real (card {i. \<exists>r\<in>set completed. order_id r = Some i}))"
  by (simp add: aov_def Let_def nunique_card net_revenue_def)

theorem aov_value_witness:
  "aov [] = 0 \<and> aov ex_completed = 300"
proof
  show "aov [] = 0" using aov_value [of "[]"] by simp
  have "{i. \<exists>r\<in>set ex_completed. order_id r = Some i} = {''A1''}"
    by (auto simp: ex_completed_def ex_sale_def)
  with aov_value [of ex_completed] show "aov ex_completed = 300"
    by (simp add: ex_completed_def ex_sale_def)
qed


section \<open>The inventory reconciler\<close>

lemma set_sku_sales:
  "set (sku_sales completed) =
     {(k, n). k \<in> final_sku ` set completed \<and> n = length (filter (\<lambda>r. final_sku r = k) completed)}"
  by (auto simp: sku_sales_def groupby_size_def set_group_keys group_rows_def)

lemma in_left_rows:
  "(k, n, a) \<in> set (let ms = filter (\<lambda>i. sku_code i = Some k') right
        in if ms = [] then [(Some k', Some n', None)]
           else map (\<lambda>i. (Some k', Some n', available_atp i)) ms)
     \<longleftrightarrow> k = Some k' \<and> n = Some n' \<and>
        ((\<exists>i\<in>set right. sku_code i = Some k' \<and> a = available_atp i) \<or>
         ((\<forall>i\<in>set right. sku_code i \<noteq> Some k') \<and> a = None))"
  by (auto simp: Let_def filter_empty_conv)

lemma not_left_key:
  "c \<notin> set (map (\<lambda>(k, n). Some k) left) \<longleftrightarrow> (\<forall>k n. (k, n) \<in> set left \<longrightarrow> c \<noteq> Some k)"
  by (auto simp: image_iff split: prod.splits)

lemma in_merge_outer_split:
  "x \<in> set (merge_outer left right) \<longleftrightarrow>
     (\<exists>k n. (k, n) \<in> set left \<and>
        x \<in> set (let ms = filter (\<lambda>i. sku_code i = Some k) right
                  in if ms = [] then [(Some k, Some n, None)]
                     else map (\<lambda>i. (Some k, Some n, available_atp i)) ms)) \<or>
     (\<exists>i\<in>set right. (\<forall>k n. (k, n) \<in> set left \<longrightarrow> sku_code i \<noteq> Some k) \<and>
        x = (sku_code i, None, available_atp i))"
proof -
  have "x \<in> set (concat (map (\<lambda>(k, n).
        (let ms = filter (\<lambda>i. sku_code i = Some k) right
         in if ms = [] then [(Some k, Some n, None)]
            else map (\<lambda>i. (Some k, Some n, available_atp i)) ms)) left)) \<longleftrightarrow>
     (\<exists>k n. (k, n) \<in> set left \<and>
        x \<in> set (let ms = filter (\<lambda>i. sku_code i = Some k) right
                  in if ms = [] then [(Some k, Some n, None)]
                     else map (\<lambda>i. (Some k, Some n, available_atp i)) ms))"
    unfolding set_concat set_map by fastforce
  moreover have "x \<in> set (map (\<lambda>i. (sku_code i, None, available_atp i))
           (filter (\<lambda>i. sku_code i \<notin> set (map (\<lambda>(k, n). Some k) left)) right)) \<longleftrightarrow>
     (\<exists>i\<in>set right. (\<forall>k n. (k, n) \<in> set left \<longrightarrow> sku_code i \<noteq> Some k) \<and>
        x = (sku_code i, None, available_atp i))"
    unfolding not_left_key by auto
  ultimately show ?thesis
    unfolding merge_outer_def set_append Un_iff by simp
qed

lemma in_merge_outer:
  "(k, n, a) \<in> set (merge_outer left right) \<longleftrightarrow>
     (\<exists>k' n'. (k', n') \<in> set left \<and> k = Some k' \<and> n = Some n' \<and>
        ((\<exists>i\<in>set right. sku_code i = Some k' \<and> a = available_atp i) \<or>
         ((\<forall>i\<in>set right. sku_code i \<noteq> Some k') \<and> a = None))) \<or>
     (\<exists>i\<in>set right. (\<forall>k' n'. (k', n') \<in> set left \<longrightarrow> sku_code i \<noteq> Some k') \<and>
        k = sku_code i \<and> n = None \<and> a = available_atp i)"
  unfolding in_merge_outer_split in_left_rows
  by (simp only: prod.inject)

lemma clip_lower_max: "clip_lower l x = max l x"
  by (simp add: clip_lower_def max_def)

lemma recon_dataE:
  assumes "d \<in> set (recon_data completed inventory)"
  obtains k n a where "(k, n, a) \<in> set (merge_outer (sku_sales completed) inventory)"
    and "d = \<lparr> sku = k, total_sold = fillna0 (map_option real n), available = fillna0 a,
              stock_to_order = clip_lower 0 (fillna0 (map_option real n) - fillna0 a) \<rparr>"
  using assms by (auto simp: recon_data_def Let_def)

lemma recon_dataI:
  assumes "(k, n, a) \<in> set (merge_outer (sku_sales completed) inventory)"
  shows "\<lparr> sku = k, total_sold = fillna0 (map_option real n), available = fillna0 a,
           stock_to_order = clip_lower 0 (fillna0 (map_option real n) - fillna0 a) \<rparr>
         \<in> set (recon_data completed inventory)"
  unfolding recon_data_def set_map
  by (rule image_eqI [where x = "(k, n, a)"]) (simp_all add: Let_def assms)

lemma recon_row_sound:
  assumes "d \<in> set (recon_data completed inventory)"
  shows "stock_to_order d = max 0 (total_sold d - available d)"
    and "0 \<le> stock_to_order d"
    and "sku d = Some k \<Longrightarrow> total_sold d = real (length (filter (\<lambda>r. final_sku r = k) completed))"
    and "sku d = None \<Longrightarrow> total_sold d = 0"
    and "(\<exists>i\<in>set inventory. sku_code i = sku d \<and> available d = fillna0 (available_atp i)) \<or>
         ((\<forall>i\<in>set inventory. sku_code i \<noteq> sku d) \<and> available d = 0)"
proof -
  from assms obtain k' n a where m: "(k', n, a) \<in> set (merge_outer (sku_sales completed) inventory)"
    and d: "d = \<lparr> sku = k', total_sold = fillna0 (map_option real n), available = fillna0 a,
              stock_to_order = clip_lower 0 (fillna0 (map_option real n) - fillna0 a) \<rparr>"
    by (rule recon_dataE)
  show "stock_to_order d = max 0 (total_sold d - available d)"
    by (simp add: d clip_lower_max)
  show "0 \<le> stock_to_order d"
    by (simp add: d clip_lower_max)
  from m consider
    (left) k1 n1 where "(k1, n1) \<in> set (sku_sales completed)" "k' = Some k1" "n = Some n1"
      "(\<exists>i\<in>set inventory. sku_code i = Some k1 \<and> a = available_atp i) \<or>
         ((\<forall>i\<in>set inventory. sku_code i \<noteq> Some k1) \<and> a = None)"
    | (right) i where "i \<in> set inventory" "k' = sku_code i" "n = None" "a = available_atp i"
      "\<forall>k1 n1. (k1, n1) \<in> set (sku_sales completed) \<longrightarrow> sku_code i \<noteq> Some k1"
    unfolding in_merge_outer by blast
  note cases = this
  show "total_sold d = real (length (filter (\<lambda>r. final_sku r = k) completed))" if "sku d = Some k"
  proof (cases rule: cases)
    case left
    with that d show ?thesis by (auto simp: set_sku_sales fillna0_def)
  next
    case right
    with that d have "k \<notin> final_sku ` set completed" by (auto simp: set_sku_sales)
    then have "filter (\<lambda>r. final_sku r = k) completed = []"
      by (auto simp: filter_empty_conv)
    with right d show ?thesis by (simp add: fillna0_def)
  qed
  show "total_sold d = 0" if "sku d = None"
  proof (cases rule: cases)
    case left
    with that d show ?thesis by simp
  next
    case right
    with d show ?thesis by (simp add: fillna0_def)
  qed
  show "(\<exists>i\<in>set inventory. sku_code i = sku d \<and> available d = fillna0 (available_atp i)) \<or>
         ((\<forall>i\<in>set inventory. sku_code i \<noteq> sku d) \<and> available d = 0)"
  proof (cases rule: cases)
    case left
    with d show ?thesis by (auto simp: fillna0_def)
  next
    case right
    with d show ?thesis by auto
  qed
qed

lemma recon_covers_sold:
  assumes "r \<in> set completed"
  shows "\<exists>d\<in>set (recon_data completed inventory). sku d = Some (final_sku r)"
proof -
  let ?k = "final_sku r"
  let ?n = "length (filter (\<lambda>r. final_sku r = ?k) completed)"
  have kn: "(?k, ?n) \<in> set (sku_sales completed)"
    using assms by (auto simp: set_sku_sales)
  have "\<exists>a. (Some ?k, Some ?n, a) \<in> set (merge_outer (sku_sales completed) inventory)"
    unfolding in_merge_outer using kn by blast
  then obtain a where "(Some ?k, Some ?n, a) \<in> set (merge_outer (sku_sales completed) inventory)" ..
  from recon_dataI [OF this] show ?thesis by force
qed

lemma recon_covers_inventory:
  assumes "i \<in> set inventory"
  shows "\<exists>d\<in>set (recon_data completed inventory). sku d = sku_code i"
proof -
  have "\<exists>n a. (sku_code i, n, a) \<in> set (merge_outer (sku_sales completed) inventory)"
  proof (cases "\<exists>k1 n1. (k1, n1) \<in> set (sku_sales completed) \<and> sku_code i = Some k1")
    case True
    then obtain k1 n1 where "(k1, n1) \<in> set (sku_sales completed)" "sku_code i = Some k1" by blast
    with assms have "(sku_code i, Some n1, available_atp i) \<in> set (merge_outer (sku_sales completed) inventory)"
      unfolding in_merge_outer by blast
    then show ?thesis by blast
  next
    case False
    with assms have "(sku_code i, None, available_atp i) \<in> set (merge_outer (sku_sales completed) inventory)"
      unfolding in_merge_outer by blast
    then show ?thesis by blast
  qed
  then obtain n a where "(sku_code i, n, a) \<in> set (merge_outer (sku_sales completed) inventory)" by blast
  from recon_dataI [OF this] show ?thesis by force
qed


text \<open>
  C4. In every row of the merged table the stock to order is the maximum of 0 and units
  sold minus available stock, so it is never negative. The units sold of a SKU are the
  number of completed rows with that final SKU (0 for a row that comes from the
  inventory alone), and the available stock is that of an inventory row with the SKU
  code, 0 where it is missing or where no inventory row has the code. Every final SKU of
  a completed row and every SKU code of the inventory has a row.
\<close>

theorem stock_to_order_value:
  "(\<forall>d\<in>set (recon_data completed inventory).
      stock_to_order d = max 0 (total_sold d - available d) \<and> 0 \<le> stock_to_order d \<and>
      (\<forall>k. sku d = Some k \<longrightarrow>
         total_sold d = real (length (filter (\<lambda>r. final_sku r = k) completed))) \<and>
      (sku d = None \<longrightarrow> total_sold d = 0) \<and>
      ((\<exists>i\<in>set inventory. sku_code i = sku d \<and> available d = fillna0 (available_atp i)) \<or>
       ((\<forall>i\<in>set inventory. sku_code i \<noteq> sku d) \<and> available d = 0))) \<and>
   (\<forall>r\<in>set completed. \<exists>d\<in>set (recon_data completed inventory). sku d = Some (final_sku r)) \<and>
   (\<forall>i\<in>set inventory. \<exists>d\<in>set (recon_data completed inventory). sku d = sku_code i)"
  using recon_row_sound [of _ completed inventory] recon_covers_sold [of _ completed inventory]
    recon_covers_inventory [of _ inventory completed]
  by blast

theorem stock_to_order_value_witness:
  "\<lparr> sku = Some ''X'', total_sold = 3, available = 1, stock_to_order = 2 \<rparr>
     \<in> set (recon_data ex_completed ex_inventory) \<and>
   stock_to_order \<lparr> sku = Some ''X'', total_sold = 3, available = 1, stock_to_order = 2 \<rparr>
     = max 0 (total_sold \<lparr> sku = Some ''X'', total_sold = 3, available = 1, stock_to_order = 2 \<rparr>
              - available \<lparr> sku = Some ''X'', total_sold = 3, available = 1, stock_to_order = 2 \<rparr>)"
proof -
  have sales: "sku_sales ex_completed = [(''X'', 3)]"
    by (simp add: sku_sales_def groupby_size_def group_keys_def group_rows_def
          ex_completed_def ex_sale_def)
  have mem: "\<lparr> sku = Some ''X'', total_sold = 3, available = 1, stock_to_order = 2 \<rparr>
      \<in> set (recon_data ex_completed ex_inventory)"
    by (simp add: recon_data_def sales merge_outer_def ex_inventory_def fillna0_def
          clip_lower_def)
  from stock_to_order_value [of ex_completed ex_inventory] mem show ?thesis by blast
qed


text \<open>
  C9. The rows of the dead-stock view are rows of the merged table with no unit sold and
  available stock above 0, and every such row of the merged table is in the view.
\<close>

theorem dead_stock_rows:
  "(\<forall>d\<in>set (dead_stock data). d \<in> set data \<and> total_sold d = 0 \<and> available d > 0) \<and>
   (\<forall>d\<in>set data. total_sold d = 0 \<and> available d > 0 \<longrightarrow> d \<in> set (dead_stock data))"
  by (simp add: dead_stock_def)

theorem dead_stock_rows_witness:
  "\<lparr> sku = Some ''Y'', total_sold = 0, available = 4, stock_to_order = 0 \<rparr>
     \<in> set (dead_stock (recon_data ex_completed ex_inventory))"
proof -
  have sales: "sku_sales ex_completed = [(''X'', 3)]"
    by (simp add: sku_sales_def groupby_size_def group_keys_def group_rows_def
          ex_completed_def ex_sale_def)
  have mem: "\<lparr> sku = Some ''Y'', total_sold = 0, available = 4, stock_to_order = 0 \<rparr>
      \<in> set (recon_data ex_completed ex_inventory)"
    by (simp add: recon_data_def sales merge_outer_def ex_inventory_def fillna0_def
          clip_lower_def)
  with dead_stock_rows [of "recon_data ex_completed ex_inventory"] show ?thesis by simp
qed


end
